theory Spec2Isabelle
  imports Complex_Main "HOL-Library.Sublist"
begin

section \<open>JavaScript values read from a JSON response\<close>

text \<open>
  \<open>response.json()\<close> yields a JavaScript value built from JSON text. A JSON number
  parses to a finite double or, when the literal overflows, to an infinity; it is never
  NaN. A finite double is carried by its value as a rational, so both zeros are
  \<open>Finite 0\<close>. \<open>Undefined\<close> is not a JSON value: it is what reading a missing
  property gives.
\<close>

datatype jsnumber = Finite rat | PosInfinity | NegInfinity

datatype jsval =
    Undefined
  | JNull
  | JBool bool
  | JNum jsnumber
  | JStr string
  | JArr "jsval list"
  | JObj "(string \<times> jsval) list"

text \<open>Thrown values: every error this program catches is read through its \<open>message\<close>.\<close>

datatype js_error = Error (message: string)

text \<open>
  Truthiness (\<open>ToBoolean\<close>): \<open>undefined\<close>, \<open>null\<close>, \<open>false\<close>, zero and the empty
  string are falsy; every array and object is truthy, also when empty.
\<close>

fun truthy :: "jsval \<Rightarrow> bool" where
  "truthy Undefined = False"
| "truthy JNull = False"
| "truthy (JBool b) = b"
| "truthy (JNum n) = (n \<noteq> Finite 0)"
| "truthy (JStr s) = (s \<noteq> [])"
| "truthy (JArr xs) = True"
| "truthy (JObj kvs) = True"

definition nullish :: "jsval \<Rightarrow> bool" where
  "nullish v = (v = Undefined \<or> v = JNull)"

text \<open>\<open>a || b\<close> and \<open>a ?? b\<close>.\<close>

definition js_or :: "jsval \<Rightarrow> jsval \<Rightarrow> jsval" where
  "js_or a b = (if truthy a then a else b)"

definition js_coalesce :: "jsval \<Rightarrow> jsval \<Rightarrow> jsval" where
  "js_coalesce a b = (if nullish a then b else a)"

text \<open>
  \<open>v.k\<close> for a value \<open>v\<close> that is neither \<open>null\<close> nor \<open>undefined\<close>. An object
  built by \<open>JSON.parse\<close> keeps the last binding of a repeated key. The keys this
  program reads are none of the properties that strings, arrays or \<open>Object.prototype\<close>
  carry, so on anything but an object with the key the read gives \<open>undefined\<close>.
\<close>

fun get_prop :: "jsval \<Rightarrow> string \<Rightarrow> jsval" where
  "get_prop (JObj kvs) k = (case map_of (rev kvs) k of None \<Rightarrow> Undefined | Some v \<Rightarrow> v)"
| "get_prop v k = Undefined"

text \<open>\<open>v?.k\<close>: \<open>undefined\<close> when \<open>v\<close> is \<open>null\<close> or \<open>undefined\<close>.\<close>

definition opt_chain :: "jsval \<Rightarrow> string \<Rightarrow> jsval" where
  "opt_chain v k = (if nullish v then Undefined else get_prop v k)"


section \<open>The result view model\<close>

record extracted =
  name :: jsval
  dob :: jsval
  id_number :: jsval
  document_type :: jsval

record details =
  age_validation :: jsval
  expiry_validation :: jsval
  name_validation :: jsval
  id_validation :: jsval
  consistency_issues :: jsval

record fraud_flags =
  has_fraud_indicators :: jsval
  risk_level :: jsval
  flags :: jsval
  ff_summary :: jsval
  details :: details

record transformed =
  verification_id :: jsval
  success :: jsval
  extracted :: extracted
  trust_score :: jsval
  face_confidence :: jsval
  fraud_flags :: fraud_flags
  summary :: jsval
  status :: jsval
  timestamp :: jsval
  processing_time :: jsval

text \<open>
  The object literal \<open>transformedResult\<close> of \<open>handleVerifyKYC\<close>. Its first property
  read, \<open>apiResult.verification_id\<close>, throws a \<open>TypeError\<close> when the parsed body is
  \<open>null\<close> (the message is the engine's; V8's is used here); on every other value all
  reads succeed.
\<close>

definition transformedResult :: "jsval \<Rightarrow> js_error + transformed" where
  "transformedResult apiResult =
    (if nullish apiResult
     then Inl (Error ''Cannot read properties of null (reading 'verification_id')'')
     else Inr \<lparr>
       verification_id = get_prop apiResult ''verification_id'',
       success = get_prop apiResult ''success'',
       extracted = \<lparr>
         name = js_or (get_prop apiResult ''name'') (JStr ''Unknown''),
         dob = js_or (get_prop apiResult ''dob'') (JStr ''Unknown''),
         id_number = js_or (get_prop apiResult ''id_number'') (JStr ''Unknown''),
         document_type = js_or (get_prop apiResult ''document_type'') (JStr ''unknown'')
       \<rparr>,
       trust_score = js_coalesce (get_prop apiResult ''trust_score'') (JNum (Finite 0)),
       face_confidence = js_coalesce (get_prop apiResult ''face_confidence'') (JNum (Finite 0)),
       fraud_flags = \<lparr>
         has_fraud_indicators =
           js_coalesce (opt_chain (get_prop apiResult ''fraud_flags'') ''has_fraud_indicators'')
             (JBool False),
         risk_level =
           js_or (opt_chain (get_prop apiResult ''fraud_flags'') ''risk_level'') (JStr ''unknown''),
         flags = js_or (opt_chain (get_prop apiResult ''fraud_flags'') ''flags'') (JArr []),
         ff_summary = js_or (opt_chain (get_prop apiResult ''fraud_flags'') ''summary'') (JStr ''''),
         details = \<lparr>
           age_validation =
             js_or (opt_chain (opt_chain (get_prop apiResult ''fraud_flags'') ''details'')
               ''age_validation'') (JObj []),
           expiry_validation =
             js_or (opt_chain (opt_chain (get_prop apiResult ''fraud_flags'') ''details'')
               ''expiry_validation'') (JObj []),
           name_validation =
             js_or (opt_chain (opt_chain (get_prop apiResult ''fraud_flags'') ''details'')
               ''name_validation'') (JObj []),
           id_validation =
             js_or (opt_chain (opt_chain (get_prop apiResult ''fraud_flags'') ''details'')
               ''id_validation'') (JObj []),
           consistency_issues =
             js_or (opt_chain (opt_chain (get_prop apiResult ''fraud_flags'') ''details'')
               ''consistency_issues'') (JArr [])
         \<rparr>
       \<rparr>,
       summary = js_or (get_prop apiResult ''summary'') (JStr ''Verification completed.''),
       status = js_or (get_prop apiResult ''status'') (JStr ''completed''),
       timestamp = get_prop apiResult ''timestamp'',
       processing_time = get_prop apiResult ''processing_time_ms''
     \<rparr>)"


section \<open>The verification application (\<open>KYCApp\<close>)\<close>

text \<open>
  A \<open>File\<close> as far as the program reads it: its name, its size in bytes and its
  declared media type.
\<close>

record File =
  file_name :: string
  file_size :: nat
  file_type :: string

record files =
  idCard :: "File option"
  selfie :: "File option"

record verification =
  step :: nat
  isLoading :: bool
  result :: "transformed option"
  error :: "string option"

text \<open>
  \<open>apiHealth\<close>: the \<open>data\<close> and \<open>error\<close> properties are present only in the
  object literals that set them.
\<close>

record apiHealth =
  health_status :: string
  lastChecked :: "string option"
  health_data :: "jsval option"
  health_error :: "string option"

text \<open>A request handed to \<open>fetch\<close>: the URL, the method and the multipart parts.\<close>

record request =
  req_url :: string
  req_method :: string
  req_parts :: "(string \<times> File) list"

text \<open>
  The component's three state variables, with what it does to the world outside it:
  the \<open>alert\<close> calls and the requests dispatched so far, oldest first. Console output
  is not modelled.
\<close>

record kycapp =
  files :: files
  verification :: verification
  apiHealth :: apiHealth
  alerts :: "string list"
  fetches :: "request list"

definition initial :: kycapp where
  "initial = \<lparr>
     files = \<lparr>idCard = None, selfie = None\<rparr>,
     verification = \<lparr>step = 1, isLoading = False, result = None, error = None\<rparr>,
     apiHealth = \<lparr>health_status = ''unknown'', lastChecked = None,
       health_data = None, health_error = None\<rparr>,
     alerts = [],
     fetches = []
   \<rparr>"

text \<open>
  What an awaited \<open>fetch\<close> settles to: it rejects with an error (a network failure),
  or resolves to a response with a status code, a status text and a body, where
  \<open>response.json()\<close> either rejects (the body is not JSON) or gives the parsed value.
\<close>

datatype body = NotJson js_error | Json jsval

datatype fetch_result = Rejected js_error | Response nat string body

definition ok :: "nat \<Rightarrow> bool" where
  "ok code = (200 \<le> code \<and> code \<le> 299)"

text \<open>A status code in a template literal: its decimal digits.\<close>

definition digit :: "nat \<Rightarrow> char" where
  "digit d = ''0123456789'' ! d"

fun decimal :: "nat \<Rightarrow> string" where
  "decimal n = (if n < 10 then [digit n] else decimal (n div 10) @ [digit (n mod 10)])"

declare decimal.simps [simp del]

definition alert :: "string \<Rightarrow> kycapp \<Rightarrow> kycapp" where
  "alert msg s = s\<lparr>alerts := alerts s @ [msg]\<rparr>"

definition fetch :: "request \<Rightarrow> kycapp \<Rightarrow> kycapp" where
  "fetch r s = s\<lparr>fetches := fetches s @ [r]\<rparr>"

subsection \<open>\<open>checkApiHealth\<close>\<close>

text \<open>\<open>now\<close> is \<open>new Date().toLocaleTimeString()\<close> at the time of the update.\<close>

definition health_request :: request where
  "health_request = \<lparr>req_url = ''http://127.0.0.1:8000/api/v1/kyc/health'',
     req_method = ''GET'', req_parts = []\<rparr>"

definition checkApiHealth :: "string \<Rightarrow> fetch_result \<Rightarrow> kycapp \<Rightarrow> kycapp" where
  "checkApiHealth now r s =
    (let s1 = fetch health_request s in
     case r of
       Rejected e \<Rightarrow>
         s1\<lparr>apiHealth := \<lparr>health_status = ''error'', lastChecked = Some now,
           health_data = None, health_error = Some (message e)\<rparr>\<rparr>
     | Response code statusText b \<Rightarrow>
         if ok code then
           (case b of
              Json healthData \<Rightarrow>
                s1\<lparr>apiHealth := \<lparr>health_status = ''healthy'', lastChecked = Some now,
                  health_data = Some healthData, health_error = None\<rparr>\<rparr>
            | NotJson e \<Rightarrow>
                s1\<lparr>apiHealth := \<lparr>health_status = ''error'', lastChecked = Some now,
                  health_data = None, health_error = Some (message e)\<rparr>\<rparr>)
         else
           s1\<lparr>apiHealth := \<lparr>health_status = ''error'', lastChecked = Some now,
             health_data = None, health_error = Some (''HTTP '' @ decimal code)\<rparr>\<rparr>)"

subsection \<open>\<open>handleFilesSelect\<close>, \<open>handleStartOver\<close>, \<open>canProceed\<close>\<close>

definition handleFilesSelect :: "files \<Rightarrow> kycapp \<Rightarrow> kycapp" where
  "handleFilesSelect newFiles s =
    (let s1 = s\<lparr>files := newFiles\<rparr> in
     if result (verification s) \<noteq> None
     then s1\<lparr>verification := \<lparr>step = 1, isLoading = False, result = None, error = None\<rparr>\<rparr>
     else s1)"

definition handleStartOver :: "kycapp \<Rightarrow> kycapp" where
  "handleStartOver s =
    s\<lparr>files := \<lparr>idCard = None, selfie = None\<rparr>,
      verification := \<lparr>step = 1, isLoading = False, result = None, error = None\<rparr>\<rparr>"

text \<open>
  \<open>files.idCard && files.selfie && !verification.isLoading\<close>: the first falsy operand,
  or the last one. A slot holds \<open>null\<close> or a \<open>File\<close> object, which is truthy, so the
  value is \<open>null\<close> (here \<open>None\<close>) when a slot is empty and the boolean otherwise. The
  submit button carries \<open>disabled={!canProceed}\<close>.
\<close>

definition canProceed :: "kycapp \<Rightarrow> bool option" where
  "canProceed s =
    (case idCard (files s) of
       None \<Rightarrow> None
     | Some f \<Rightarrow>
        (case selfie (files s) of
           None \<Rightarrow> None
         | Some g \<Rightarrow> Some (\<not> isLoading (verification s))))"

definition submit_disabled :: "kycapp \<Rightarrow> bool" where
  "submit_disabled s = (case canProceed s of None \<Rightarrow> True | Some b \<Rightarrow> \<not> b)"

text \<open>
  Where the submit button is rendered: in the branch of
  \<open>verification.result ? ... : ...\<close> taken when there is no result, under
  \<open>(files.idCard || files.selfie) && ...\<close>. With a result the component renders the
  result card and the "Verify Another Identity" button instead. The submit action can be
  taken when the button is rendered and not disabled.
\<close>

definition submit_rendered :: "kycapp \<Rightarrow> bool" where
  "submit_rendered s =
    (case result (verification s) of
       Some t \<Rightarrow> False
     | None \<Rightarrow>
        (case idCard (files s) of
           Some f \<Rightarrow> True
         | None \<Rightarrow> (case selfie (files s) of Some g \<Rightarrow> True | None \<Rightarrow> False)))"

definition submit_enabled :: "kycapp \<Rightarrow> bool" where
  "submit_enabled s = (submit_rendered s \<and> \<not> submit_disabled s)"

subsection \<open>\<open>handleVerifyKYC\<close>\<close>

definition verify_request :: "File \<Rightarrow> File \<Rightarrow> request" where
  "verify_request i f = \<lparr>req_url = ''http://127.0.0.1:8000/api/v1/kyc/verify'',
     req_method = ''POST'', req_parts = [(''id_card'', i), (''selfie'', f)]\<rparr>"

text \<open>
  The \<open>try\<close> block from the point where the awaited \<open>fetch\<close> settles: what it throws
  (\<open>Inl\<close>) or the transformed result it builds.
\<close>

definition verify_try :: "fetch_result \<Rightarrow> js_error + transformed" where
  "verify_try r =
    (case r of
       Rejected e \<Rightarrow> Inl e
     | Response code statusText b \<Rightarrow>
         if \<not> ok code then Inl (Error (''HTTP '' @ decimal code @ '': '' @ statusText))
         else (case b of NotJson e \<Rightarrow> Inl e | Json apiResult \<Rightarrow> transformedResult apiResult))"

text \<open>The rest of \<open>handleVerifyKYC\<close> after the \<open>await\<close>: the last update, or the \<open>catch\<close>.\<close>

definition handleVerifyKYC_resume :: "fetch_result \<Rightarrow> kycapp \<Rightarrow> kycapp" where
  "handleVerifyKYC_resume r s =
    (case verify_try r of
       Inr t \<Rightarrow>
         s\<lparr>verification := \<lparr>step = 4, isLoading = False, result = Some t, error = None\<rparr>\<rparr>
     | Inl e \<Rightarrow>
         s\<lparr>verification := \<lparr>step = 1, isLoading = False, result = None,
           error = Some (''Verification failed: '' @ message e)\<rparr>\<rparr>)"

text \<open>
  One call of \<open>handleVerifyKYC\<close>, given what its \<open>fetch\<close> settles to: the states the
  component goes through, one per update, the last one final. With a slot empty the
  only state is the one after the \<open>alert\<close>. Otherwise: after \<open>setVerification\<close> to step
  2; after the update \<open>prev => ({...prev, step: 3})\<close> and the dispatch of the request;
  after the response has been handled.
\<close>

definition handleVerifyKYC :: "fetch_result \<Rightarrow> kycapp \<Rightarrow> kycapp list" where
  "handleVerifyKYC r s =
    (case (idCard (files s), selfie (files s)) of
       (Some i, Some f) \<Rightarrow>
         (let s1 = s\<lparr>verification :=
                \<lparr>step = 2, isLoading = True, result = None, error = None\<rparr>\<rparr>;
              s2 = fetch (verify_request i f)
                (s1\<lparr>verification := (verification s1)\<lparr>step := 3\<rparr>\<rparr>);
              s3 = handleVerifyKYC_resume r s2
          in [s1, s2, s3])
     | _ \<Rightarrow> [alert ''Please upload both ID document and selfie before verification.'' s])"

text \<open>
  The states the application can be in: from the initial one, any handler may run, with
  any argument and any outcome of its request. While a verification request is awaited
  other handlers may run, so the rest of \<open>handleVerifyKYC\<close> may resume in a later state.
\<close>

inductive reachable :: "kycapp \<Rightarrow> bool" where
  r_initial: "reachable initial"
| r_select: "reachable s \<Longrightarrow> reachable (handleFilesSelect newFiles s)"
| r_verify: "reachable s \<Longrightarrow> s' \<in> set (handleVerifyKYC r s) \<Longrightarrow> reachable s'"
| r_resume: "reachable s \<Longrightarrow> reachable (handleVerifyKYC_resume r s)"
| r_startOver: "reachable s \<Longrightarrow> reachable (handleStartOver s)"
| r_health: "reachable s \<Longrightarrow> reachable (checkApiHealth now r s)"


section \<open>File staging (\<open>FileUpload\<close>)\<close>

text \<open>
  A staged file with its preview. \<open>URL.createObjectURL\<close> returns a new non-empty
  \<open>blob:\<close> URL on every call; a URL is carried by its serial number.
\<close>

record uploaded =
  ufile :: File
  preview :: nat

text \<open>
  The component's two state variables, with what it does to the world outside it: the
  object URLs that are live (created and not revoked), every \<open>revokeObjectURL\<close> call,
  the serial number of the next URL, the \<open>alert\<close> calls and the snapshots handed to
  the \<open>onFilesSelect\<close> callback, oldest first.
\<close>

record upload =
  idCardFile :: "uploaded option"
  selfieFile :: "uploaded option"
  urls :: "nat list"
  revoked :: "nat list"
  fresh :: nat
  alerted :: "string list"
  notified :: "files list"

text \<open>Both state variables start as \<open>useState(null)\<close>.\<close>

definition mount :: upload where
  "mount = \<lparr>idCardFile = None, selfieFile = None, urls = [], revoked = [], fresh = 0,
     alerted = [], notified = []\<rparr>"

definition createObjectURL :: "upload \<Rightarrow> nat \<times> upload" where
  "createObjectURL u = (fresh u, u\<lparr>urls := urls u @ [fresh u], fresh := Suc (fresh u)\<rparr>)"

definition revokeObjectURL :: "nat \<Rightarrow> upload \<Rightarrow> upload" where
  "revokeObjectURL p u = u\<lparr>urls := removeAll p (urls u), revoked := revoked u @ [p]\<rparr>"

definition onFilesSelect :: "files \<Rightarrow> upload \<Rightarrow> upload" where
  "onFilesSelect fs u = u\<lparr>notified := notified u @ [fs]\<rparr>"

subsection \<open>The component inside the application: validation, select, remove\<close>

definition allowedTypes :: "string list" where
  "allowedTypes = [''image/jpeg'', ''image/jpg'', ''image/png'', ''image/webp'']"

definition validateFile :: "File \<Rightarrow> string option" where
  "validateFile f =
    (if file_size f > 10 * 1024 * 1024 then Some ''File size must be less than 10MB''
     else if file_type f \<notin> set allowedTypes
       then Some ''Please upload a valid image file (JPEG, PNG, WebP)''
     else None)"

text \<open>
  \<open>idCardFile?.preview\<close> is truthy exactly when a file is staged, a URL being a
  non-empty string; \<open>selfieFile?.file || null\<close> is the staged file or \<open>null\<close>.
\<close>

definition handleFileSelect :: "File \<Rightarrow> string \<Rightarrow> upload \<Rightarrow> upload" where
  "handleFileSelect f type u =
    (case validateFile f of
       Some validationError \<Rightarrow> u\<lparr>alerted := alerted u @ [validationError]\<rparr>
     | None \<Rightarrow>
        if type = ''id'' then
          (let u1 = (case idCardFile u of
                       Some old \<Rightarrow> revokeObjectURL (preview old) u | None \<Rightarrow> u);
               (p, u2) = createObjectURL u1;
               u3 = u2\<lparr>idCardFile := Some \<lparr>ufile = f, preview = p\<rparr>\<rparr>
           in onFilesSelect \<lparr>idCard = Some f, selfie = map_option ufile (selfieFile u)\<rparr> u3)
        else
          (let u1 = (case selfieFile u of
                       Some old \<Rightarrow> revokeObjectURL (preview old) u | None \<Rightarrow> u);
               (p, u2) = createObjectURL u1;
               u3 = u2\<lparr>selfieFile := Some \<lparr>ufile = f, preview = p\<rparr>\<rparr>
           in onFilesSelect \<lparr>idCard = map_option ufile (idCardFile u), selfie = Some f\<rparr> u3))"

definition handleFileRemove :: "string \<Rightarrow> upload \<Rightarrow> upload" where
  "handleFileRemove type u =
    (if type = ''id'' then
       (let u1 = (case idCardFile u of
                    Some old \<Rightarrow> revokeObjectURL (preview old) u | None \<Rightarrow> u);
            u2 = u1\<lparr>idCardFile := None\<rparr>
        in onFilesSelect \<lparr>idCard = None, selfie = map_option ufile (selfieFile u)\<rparr> u2)
     else
       (let u1 = (case selfieFile u of
                    Some old \<Rightarrow> revokeObjectURL (preview old) u | None \<Rightarrow> u);
            u2 = u1\<lparr>selfieFile := None\<rparr>
        in onFilesSelect \<lparr>idCard = map_option ufile (idCardFile u), selfie = None\<rparr> u2))"

text \<open>A sequence of select and remove operations, run from a given state.\<close>

datatype staging_op = Select File string | Remove string

fun apply_op :: "staging_op \<Rightarrow> upload \<Rightarrow> upload" where
  "apply_op (Select f type) u = handleFileSelect f type u"
| "apply_op (Remove type) u = handleFileRemove type u"

fun run :: "staging_op list \<Rightarrow> upload \<Rightarrow> upload" where
  "run [] u = u"
| "run (x # xs) u = run xs (apply_op x u)"

subsection \<open>The drop-zone component: drop, remove, cleanup on unmount\<close>

definition onDropIdCard :: "File list \<Rightarrow> upload \<Rightarrow> upload" where
  "onDropIdCard acceptedFiles u =
    (case acceptedFiles of
       [] \<Rightarrow> u
     | f # rest \<Rightarrow>
        (let u1 = (case idCardFile u of
                     Some old \<Rightarrow> revokeObjectURL (preview old) u | None \<Rightarrow> u);
             (p, u2) = createObjectURL u1;
             u3 = u2\<lparr>idCardFile := Some \<lparr>ufile = f, preview = p\<rparr>\<rparr>
         in onFilesSelect \<lparr>idCard = Some f, selfie = map_option ufile (selfieFile u)\<rparr> u3))"

definition onDropSelfie :: "File list \<Rightarrow> upload \<Rightarrow> upload" where
  "onDropSelfie acceptedFiles u =
    (case acceptedFiles of
       [] \<Rightarrow> u
     | f # rest \<Rightarrow>
        (let u1 = (case selfieFile u of
                     Some old \<Rightarrow> revokeObjectURL (preview old) u | None \<Rightarrow> u);
             (p, u2) = createObjectURL u1;
             u3 = u2\<lparr>selfieFile := Some \<lparr>ufile = f, preview = p\<rparr>\<rparr>
         in onFilesSelect \<lparr>idCard = map_option ufile (idCardFile u), selfie = Some f\<rparr> u3))"

definition removeFile :: "string \<Rightarrow> upload \<Rightarrow> upload" where
  "removeFile type u =
    (if type = ''id'' then
       (let u1 = (case idCardFile u of
                    Some old \<Rightarrow> revokeObjectURL (preview old) u | None \<Rightarrow> u);
            u2 = u1\<lparr>idCardFile := None\<rparr>
        in onFilesSelect \<lparr>idCard = None, selfie = map_option ufile (selfieFile u)\<rparr> u2)
     else
       (let u1 = (case selfieFile u of
                    Some old \<Rightarrow> revokeObjectURL (preview old) u | None \<Rightarrow> u);
            u2 = u1\<lparr>selfieFile := None\<rparr>
        in onFilesSelect \<lparr>idCard = map_option ufile (idCardFile u), selfie = None\<rparr> u2))"

text \<open>
  The function the effect under \<open>// Cleanup on unmount\<close> returns, over the two state
  variables it closes over.
\<close>

definition cleanup :: "uploaded option \<Rightarrow> uploaded option \<Rightarrow> upload \<Rightarrow> upload" where
  "cleanup idCardFile0 selfieFile0 u =
    (let u1 = (case idCardFile0 of
                 Some x \<Rightarrow> revokeObjectURL (preview x) u | None \<Rightarrow> u)
     in (case selfieFile0 of
           Some y \<Rightarrow> revokeObjectURL (preview y) u1 | None \<Rightarrow> u1))"

text \<open>
  The effect has the dependency list \<open>[]\<close>: React runs it once, after the first render,
  and keeps the function it returned until the component unmounts. That function was
  created in the first render, so the \<open>idCardFile\<close> and \<open>selfieFile\<close> it reads are
  the first render's, the initial state, whatever has been staged since.
\<close>

definition unmount :: "upload \<Rightarrow> upload" where
  "unmount u = cleanup (idCardFile mount) (selfieFile mount) u"


section \<open>Auxiliary definitions for the statements\<close>

text \<open>
  The scenario: a 5 MB JPEG as ID document and a 2 MB PNG as selfie, handed to the
  application from its initial state, and the response body
  \<open>{status: "approved", trust_score: 92, name: "Jane Doe"}\<close>.
\<close>

definition scenario_files :: files where
  "scenario_files = \<lparr>
     idCard = Some \<lparr>file_name = ''id.jpg'', file_size = 5 * 1024 * 1024,
       file_type = ''image/jpeg''\<rparr>,
     selfie = Some \<lparr>file_name = ''selfie.png'', file_size = 2 * 1024 * 1024,
       file_type = ''image/png''\<rparr>\<rparr>"

definition scenario_body :: jsval where
  "scenario_body = JObj [(''status'', JStr ''approved''), (''trust_score'', JNum (Finite 92)),
     (''name'', JStr ''Jane Doe'')]"

definition scenario_state :: kycapp where
  "scenario_state = handleFilesSelect scenario_files initial"

text \<open>The scenario's state after the verification has succeeded.\<close>

definition after_success :: kycapp where
  "after_success =
     last (handleVerifyKYC (Response 200 ''OK'' (Json scenario_body)) scenario_state)"

text \<open>The shape every workflow state of the application has.\<close>

definition workflow_ok :: "verification \<Rightarrow> bool" where
  "workflow_ok v =
    ((isLoading v = (step v = 2 \<or> step v = 3)) \<and>
     (step v, isLoading v) \<in> {(1, False), (2, True), (3, True), (4, False)} \<and>
     (result v = None \<or> error v = None))"

text \<open>
  Bookkeeping of the preview URLs of the staging component: the previews its two slots
  hold; that they are the live URLs, each slot with a URL of its own; that no URL was
  revoked twice or is both live and revoked; and that every URL created so far is either
  held by a slot or revoked.
\<close>

definition staged :: "upload \<Rightarrow> nat set" where
  "staged u = preview ` (set_option (idCardFile u) \<union> set_option (selfieFile u))"

definition slots_differ :: "upload \<Rightarrow> bool" where
  "slots_differ u =
    (case (idCardFile u, selfieFile u) of
       (Some x, Some y) \<Rightarrow> preview x \<noteq> preview y
     | _ \<Rightarrow> True)"

definition staged_ok :: "upload \<Rightarrow> bool" where
  "staged_ok u =
    (set (urls u) = staged u \<and> distinct (urls u) \<and> distinct (revoked u) \<and> slots_differ u \<and>
     staged u \<inter> set (revoked u) = {} \<and> staged u \<union> set (revoked u) = {..<fresh u})"

text \<open>Releasing the preview of a slot, if it holds one, and clearing the slot.\<close>

definition release_id :: "upload \<Rightarrow> upload" where
  "release_id u =
    (case idCardFile u of Some old \<Rightarrow> revokeObjectURL (preview old) u | None \<Rightarrow> u)
      \<lparr>idCardFile := None\<rparr>"

definition release_selfie :: "upload \<Rightarrow> upload" where
  "release_selfie u =
    (case selfieFile u of Some old \<Rightarrow> revokeObjectURL (preview old) u | None \<Rightarrow> u)
      \<lparr>selfieFile := None\<rparr>"


section \<open>The projection\<close>

lemma nullish_simps:
  "nullish Undefined" "nullish JNull" "\<not> nullish (JBool b)" "\<not> nullish (JNum n)"
  "\<not> nullish (JStr s)" "\<not> nullish (JArr xs)" "\<not> nullish (JObj kvs)"
  by (simp_all add: nullish_def)

lemma truthy_not_nullish: "truthy v \<Longrightarrow> \<not> nullish v"
  by (auto simp: nullish_def)

lemma js_or_absent: "js_or Undefined d = d"
  by (simp add: js_or_def)

lemma js_or_truthy: "truthy a \<Longrightarrow> js_or a d = a"
  by (simp add: js_or_def)

lemma js_or_not_nullish: "\<not> nullish d \<Longrightarrow> \<not> nullish (js_or a d)"
  by (simp add: js_or_def truthy_not_nullish)

lemma js_coalesce_absent: "js_coalesce Undefined d = d"
  by (simp add: js_coalesce_def nullish_simps)

lemma js_coalesce_present: "\<not> nullish a \<Longrightarrow> js_coalesce a d = a"
  by (simp add: js_coalesce_def)

lemma js_coalesce_not_nullish: "\<not> nullish d \<Longrightarrow> \<not> nullish (js_coalesce a d)"
  by (simp add: js_coalesce_def)

lemma opt_chain_absent: "opt_chain Undefined k = Undefined"
  by (simp add: opt_chain_def nullish_simps)

lemma decimal_500: "decimal 500 = ''500''"
  by (simp add: decimal.simps digit_def)

subsection \<open>What a call of \<open>handleVerifyKYC\<close> ends in\<close>

lemma last_handleVerifyKYC:
  "idCard (files s) = Some i \<Longrightarrow> selfie (files s) = Some f \<Longrightarrow>
   last (handleVerifyKYC r s) =
     handleVerifyKYC_resume r
       (fetch (verify_request i f)
         (s\<lparr>verification := \<lparr>step = 3, isLoading = True, result = None, error = None\<rparr>\<rparr>))"
  by (simp add: handleVerifyKYC_def Let_def)

lemma resume_failure:
  "verify_try r = Inl e \<Longrightarrow>
   handleVerifyKYC_resume r s =
     s\<lparr>verification := \<lparr>step = 1, isLoading = False, result = None,
        error = Some (''Verification failed: '' @ message e)\<rparr>\<rparr>"
  by (simp add: handleVerifyKYC_resume_def)

lemma resume_success:
  "verify_try r = Inr t \<Longrightarrow>
   handleVerifyKYC_resume r s =
     s\<lparr>verification := \<lparr>step = 4, isLoading = False, result = Some t, error = None\<rparr>\<rparr>"
  by (simp add: handleVerifyKYC_resume_def)

lemma verify_try_Rejected: "verify_try (Rejected e) = Inl e"
  by (simp add: verify_try_def)

lemma verify_try_not_ok:
  "\<not> ok code \<Longrightarrow>
   verify_try (Response code statusText b) =
     Inl (Error (''HTTP '' @ decimal code @ '': '' @ statusText))"
  by (simp add: verify_try_def)

lemma verify_try_ok_Json:
  "ok code \<Longrightarrow> verify_try (Response code statusText (Json apiResult)) = transformedResult apiResult"
  by (simp add: verify_try_def)

lemma scenario_state_files:
  "idCard (files scenario_state) =
     Some \<lparr>file_name = ''id.jpg'', file_size = 5 * 1024 * 1024, file_type = ''image/jpeg''\<rparr>"
  "selfie (files scenario_state) =
     Some \<lparr>file_name = ''selfie.png'', file_size = 2 * 1024 * 1024, file_type = ''image/png''\<rparr>"
  by (simp_all add: scenario_state_def scenario_files_def handleFilesSelect_def initial_def)

subsection \<open>Field by field\<close>

lemma transformedResult_obj: "\<exists>t. transformedResult (JObj kvs) = Inr t"
  by (simp add: transformedResult_def nullish_simps)

lemma passthrough_fields:
  assumes "transformedResult (JObj kvs) = Inr t"
  shows "verification_id t = get_prop (JObj kvs) ''verification_id'' \<and>
    success t = get_prop (JObj kvs) ''success'' \<and>
    timestamp t = get_prop (JObj kvs) ''timestamp'' \<and>
    processing_time t = get_prop (JObj kvs) ''processing_time_ms''"
  using assms unfolding transformedResult_def
  by (auto simp: nullish_simps simp del: get_prop.simps)

lemma top_level_fields:
  assumes "transformedResult (JObj kvs) = Inr t"
  shows "name (extracted t) = js_or (get_prop (JObj kvs) ''name'') (JStr ''Unknown'') \<and>
    dob (extracted t) = js_or (get_prop (JObj kvs) ''dob'') (JStr ''Unknown'') \<and>
    id_number (extracted t) = js_or (get_prop (JObj kvs) ''id_number'') (JStr ''Unknown'') \<and>
    document_type (extracted t) =
      js_or (get_prop (JObj kvs) ''document_type'') (JStr ''unknown'') \<and>
    trust_score t = js_coalesce (get_prop (JObj kvs) ''trust_score'') (JNum (Finite 0)) \<and>
    face_confidence t =
      js_coalesce (get_prop (JObj kvs) ''face_confidence'') (JNum (Finite 0)) \<and>
    summary t = js_or (get_prop (JObj kvs) ''summary'') (JStr ''Verification completed.'') \<and>
    status t = js_or (get_prop (JObj kvs) ''status'') (JStr ''completed'')"
  using assms unfolding transformedResult_def
  by (auto simp: nullish_simps simp del: get_prop.simps)

lemma fraud_flags_fields:
  assumes "transformedResult (JObj kvs) = Inr t"
  shows "has_fraud_indicators (fraud_flags t) =
      js_coalesce (opt_chain (get_prop (JObj kvs) ''fraud_flags'') ''has_fraud_indicators'')
        (JBool False) \<and>
    risk_level (fraud_flags t) =
      js_or (opt_chain (get_prop (JObj kvs) ''fraud_flags'') ''risk_level'') (JStr ''unknown'') \<and>
    flags (fraud_flags t) =
      js_or (opt_chain (get_prop (JObj kvs) ''fraud_flags'') ''flags'') (JArr []) \<and>
    ff_summary (fraud_flags t) =
      js_or (opt_chain (get_prop (JObj kvs) ''fraud_flags'') ''summary'') (JStr '''')"
  using assms unfolding transformedResult_def
  by (auto simp: nullish_simps simp del: get_prop.simps)

lemma details_fields:
  assumes "transformedResult (JObj kvs) = Inr t"
  shows "age_validation (details (fraud_flags t)) =
      js_or (opt_chain (opt_chain (get_prop (JObj kvs) ''fraud_flags'') ''details'')
        ''age_validation'') (JObj []) \<and>
    expiry_validation (details (fraud_flags t)) =
      js_or (opt_chain (opt_chain (get_prop (JObj kvs) ''fraud_flags'') ''details'')
        ''expiry_validation'') (JObj []) \<and>
    name_validation (details (fraud_flags t)) =
      js_or (opt_chain (opt_chain (get_prop (JObj kvs) ''fraud_flags'') ''details'')
        ''name_validation'') (JObj []) \<and>
    id_validation (details (fraud_flags t)) =
      js_or (opt_chain (opt_chain (get_prop (JObj kvs) ''fraud_flags'') ''details'')
        ''id_validation'') (JObj []) \<and>
    consistency_issues (details (fraud_flags t)) =
      js_or (opt_chain (opt_chain (get_prop (JObj kvs) ''fraud_flags'') ''details'')
        ''consistency_issues'') (JArr [])"
  using assms unfolding transformedResult_def
  by (auto simp: nullish_simps simp del: get_prop.simps)

lemma fraud_flags_absent:
  assumes "transformedResult (JObj kvs) = Inr t"
    and "get_prop (JObj kvs) ''fraud_flags'' = Undefined"
  shows "fraud_flags t = \<lparr>has_fraud_indicators = JBool False, risk_level = JStr ''unknown'',
         flags = JArr [], ff_summary = JStr '''',
         details = \<lparr>age_validation = JObj [], expiry_validation = JObj [],
           name_validation = JObj [], id_validation = JObj [],
           consistency_issues = JArr []\<rparr>\<rparr>"
  using assms unfolding transformedResult_def
  by (auto simp: nullish_simps opt_chain_absent js_or_absent js_coalesce_absent
      simp del: get_prop.simps)

lemma transformedResult_scenario:
  "\<exists>t. transformedResult scenario_body = Inr t \<and>
     trust_score t = JNum (Finite 92) \<and> name (extracted t) = JStr ''Jane Doe'' \<and>
     dob (extracted t) = JStr ''Unknown'' \<and> flags (fraud_flags t) = JArr []"
  by (simp add: scenario_body_def transformedResult_def nullish_simps js_or_def
      js_coalesce_def opt_chain_def)

lemma handleVerifyKYC_scenario:
  assumes "idCard (files s) = Some i" and "selfie (files s) = Some f" and "ok code"
  shows "\<exists>t. verification
        (last (handleVerifyKYC (Response code statusText (Json scenario_body)) s)) =
        \<lparr>step = 4, isLoading = False, result = Some t, error = None\<rparr> \<and>
     trust_score t = JNum (Finite 92) \<and> name (extracted t) = JStr ''Jane Doe'' \<and>
     dob (extracted t) = JStr ''Unknown'' \<and> flags (fraud_flags t) = JArr []"
proof -
  from transformedResult_scenario obtain t where
    t: "transformedResult scenario_body = Inr t"
    and f: "trust_score t = JNum (Finite 92)" "name (extracted t) = JStr ''Jane Doe''"
      "dob (extracted t) = JStr ''Unknown''" "flags (fraud_flags t) = JArr []"
    by blast
  from t assms(3)
  have "verify_try (Response code statusText (Json scenario_body)) = Inr t"
    by (simp add: verify_try_ok_Json)
  then have "verification
        (last (handleVerifyKYC (Response code statusText (Json scenario_body)) s)) =
        \<lparr>step = 4, isLoading = False, result = Some t, error = None\<rparr>"
    using assms(1,2) by (simp add: last_handleVerifyKYC resume_success fetch_def)
  with f show ?thesis by blast
qed

lemma top_level_defaults:
  assumes t: "transformedResult (JObj kvs) = Inr t"
  shows "name (extracted t) =
      (if truthy (get_prop (JObj kvs) ''name'') then get_prop (JObj kvs) ''name''
       else JStr ''Unknown'') \<and>
    dob (extracted t) =
      (if truthy (get_prop (JObj kvs) ''dob'') then get_prop (JObj kvs) ''dob''
       else JStr ''Unknown'') \<and>
    id_number (extracted t) =
      (if truthy (get_prop (JObj kvs) ''id_number'') then get_prop (JObj kvs) ''id_number''
       else JStr ''Unknown'') \<and>
    document_type (extracted t) =
      (if truthy (get_prop (JObj kvs) ''document_type'')
       then get_prop (JObj kvs) ''document_type'' else JStr ''unknown'') \<and>
    trust_score t =
      (if get_prop (JObj kvs) ''trust_score'' = Undefined \<or>
          get_prop (JObj kvs) ''trust_score'' = JNull
       then JNum (Finite 0) else get_prop (JObj kvs) ''trust_score'') \<and>
    face_confidence t =
      (if get_prop (JObj kvs) ''face_confidence'' = Undefined \<or>
          get_prop (JObj kvs) ''face_confidence'' = JNull
       then JNum (Finite 0) else get_prop (JObj kvs) ''face_confidence'') \<and>
    summary t =
      (if truthy (get_prop (JObj kvs) ''summary'') then get_prop (JObj kvs) ''summary''
       else JStr ''Verification completed.'') \<and>
    status t =
      (if truthy (get_prop (JObj kvs) ''status'') then get_prop (JObj kvs) ''status''
       else JStr ''completed'')"
  using top_level_fields [OF t]
  by (simp add: js_or_def js_coalesce_def nullish_def del: get_prop.simps)

lemma nested_defaults:
  assumes t: "transformedResult (JObj kvs) = Inr t"
  shows "let ff = get_prop (JObj kvs) ''fraud_flags''; d = opt_chain ff ''details'' in
     has_fraud_indicators (fraud_flags t) =
       (if opt_chain ff ''has_fraud_indicators'' = Undefined \<or>
           opt_chain ff ''has_fraud_indicators'' = JNull
        then JBool False else opt_chain ff ''has_fraud_indicators'') \<and>
     risk_level (fraud_flags t) =
       (if truthy (opt_chain ff ''risk_level'') then opt_chain ff ''risk_level''
        else JStr ''unknown'') \<and>
     flags (fraud_flags t) =
       (if truthy (opt_chain ff ''flags'') then opt_chain ff ''flags'' else JArr []) \<and>
     ff_summary (fraud_flags t) =
       (if truthy (opt_chain ff ''summary'') then opt_chain ff ''summary'' else JStr '''') \<and>
     age_validation (details (fraud_flags t)) =
       (if truthy (opt_chain d ''age_validation'') then opt_chain d ''age_validation''
        else JObj []) \<and>
     expiry_validation (details (fraud_flags t)) =
       (if truthy (opt_chain d ''expiry_validation'') then opt_chain d ''expiry_validation''
        else JObj []) \<and>
     name_validation (details (fraud_flags t)) =
       (if truthy (opt_chain d ''name_validation'') then opt_chain d ''name_validation''
        else JObj []) \<and>
     id_validation (details (fraud_flags t)) =
       (if truthy (opt_chain d ''id_validation'') then opt_chain d ''id_validation''
        else JObj []) \<and>
     consistency_issues (details (fraud_flags t)) =
       (if truthy (opt_chain d ''consistency_issues'') then opt_chain d ''consistency_issues''
        else JArr [])"
  using fraud_flags_fields [OF t] details_fields [OF t]
  by (simp add: Let_def js_or_def js_coalesce_def nullish_def del: get_prop.simps)

subsection \<open>The claims about the projection\<close>

text \<open>
  Claim C1, as amended. For every response body that is a JSON object the projection
  succeeds, and its result is fixed field by field. \<open>verification_id\<close>, \<open>success\<close>
  and \<open>timestamp\<close> are the same-named raw fields, and \<open>processing_time\<close> is the raw
  field \<open>processing_time_ms\<close>, whatever they hold (\<open>undefined\<close> when absent). Each of
  \<open>name\<close>, \<open>dob\<close>, \<open>id_number\<close>, \<open>document_type\<close>, \<open>summary\<close> and \<open>status\<close> is
  the raw value when that is truthy and the documented default otherwise, that is, when
  the raw field is absent or holds a falsy value. \<open>trust_score\<close> and
  \<open>face_confidence\<close> are the raw value unless the raw field is absent or \<open>null\<close>,
  when they are 0. In the fraud-flags structure \<open>has_fraud_indicators\<close> is the nested
  raw value unless that is absent or \<open>null\<close>, when it is \<open>false\<close>, and every other
  field is the nested raw value when that is truthy and its default otherwise; with
  \<open>fraud_flags\<close> absent the structure is the documented structure of defaults. In
  particular, with both files staged and a successful status, the body
  \<open>{status: "approved", trust_score: 92, name: "Jane Doe"}\<close> ends the call of
  \<open>handleVerifyKYC\<close> in step 4, not loading, no error, with a result whose
  \<open>trust_score\<close> is 92, \<open>extracted.name\<close> is "Jane Doe", \<open>extracted.dob\<close> is
  "Unknown" and \<open>fraud_flags.flags\<close> is the empty list.
\<close>

theorem C1_projection_fields:
  "(\<exists>t. transformedResult (JObj kvs) = Inr t \<and>
    (verification_id t = get_prop (JObj kvs) ''verification_id'' \<and>
     success t = get_prop (JObj kvs) ''success'' \<and>
     timestamp t = get_prop (JObj kvs) ''timestamp'' \<and>
     processing_time t = get_prop (JObj kvs) ''processing_time_ms'') \<and>
    (name (extracted t) =
      (if truthy (get_prop (JObj kvs) ''name'') then get_prop (JObj kvs) ''name''
       else JStr ''Unknown'') \<and>
    dob (extracted t) =
      (if truthy (get_prop (JObj kvs) ''dob'') then get_prop (JObj kvs) ''dob''
       else JStr ''Unknown'') \<and>
    id_number (extracted t) =
      (if truthy (get_prop (JObj kvs) ''id_number'') then get_prop (JObj kvs) ''id_number''
       else JStr ''Unknown'') \<and>
    document_type (extracted t) =
      (if truthy (get_prop (JObj kvs) ''document_type'')
       then get_prop (JObj kvs) ''document_type'' else JStr ''unknown'') \<and>
    trust_score t =
      (if get_prop (JObj kvs) ''trust_score'' = Undefined \<or>
          get_prop (JObj kvs) ''trust_score'' = JNull
       then JNum (Finite 0) else get_prop (JObj kvs) ''trust_score'') \<and>
    face_confidence t =
      (if get_prop (JObj kvs) ''face_confidence'' = Undefined \<or>
          get_prop (JObj kvs) ''face_confidence'' = JNull
       then JNum (Finite 0) else get_prop (JObj kvs) ''face_confidence'') \<and>
    summary t =
      (if truthy (get_prop (JObj kvs) ''summary'') then get_prop (JObj kvs) ''summary''
       else JStr ''Verification completed.'') \<and>
    status t =
      (if truthy (get_prop (JObj kvs) ''status'') then get_prop (JObj kvs) ''status''
       else JStr ''completed'')) \<and>
    (get_prop (JObj kvs) ''fraud_flags'' = Undefined \<longrightarrow>
       fraud_flags t = \<lparr>has_fraud_indicators = JBool False, risk_level = JStr ''unknown'',
         flags = JArr [], ff_summary = JStr '''',
         details = \<lparr>age_validation = JObj [], expiry_validation = JObj [],
           name_validation = JObj [], id_validation = JObj [],
           consistency_issues = JArr []\<rparr>\<rparr>) \<and>
    (let ff = get_prop (JObj kvs) ''fraud_flags''; d = opt_chain ff ''details'' in
     has_fraud_indicators (fraud_flags t) =
       (if opt_chain ff ''has_fraud_indicators'' = Undefined \<or>
           opt_chain ff ''has_fraud_indicators'' = JNull
        then JBool False else opt_chain ff ''has_fraud_indicators'') \<and>
     risk_level (fraud_flags t) =
       (if truthy (opt_chain ff ''risk_level'') then opt_chain ff ''risk_level''
        else JStr ''unknown'') \<and>
     flags (fraud_flags t) =
       (if truthy (opt_chain ff ''flags'') then opt_chain ff ''flags'' else JArr []) \<and>
     ff_summary (fraud_flags t) =
       (if truthy (opt_chain ff ''summary'') then opt_chain ff ''summary'' else JStr '''') \<and>
     age_validation (details (fraud_flags t)) =
       (if truthy (opt_chain d ''age_validation'') then opt_chain d ''age_validation''
        else JObj []) \<and>
     expiry_validation (details (fraud_flags t)) =
       (if truthy (opt_chain d ''expiry_validation'') then opt_chain d ''expiry_validation''
        else JObj []) \<and>
     name_validation (details (fraud_flags t)) =
       (if truthy (opt_chain d ''name_validation'') then opt_chain d ''name_validation''
        else JObj []) \<and>
     id_validation (details (fraud_flags t)) =
       (if truthy (opt_chain d ''id_validation'') then opt_chain d ''id_validation''
        else JObj []) \<and>
     consistency_issues (details (fraud_flags t)) =
       (if truthy (opt_chain d ''consistency_issues'') then opt_chain d ''consistency_issues''
        else JArr []))) \<and>
   (idCard (files s) = Some i \<and> selfie (files s) = Some f \<and> ok code \<longrightarrow>
     (\<exists>t. verification
         (last (handleVerifyKYC (Response code statusText (Json scenario_body)) s)) =
         \<lparr>step = 4, isLoading = False, result = Some t, error = None\<rparr> \<and>
       trust_score t = JNum (Finite 92) \<and> name (extracted t) = JStr ''Jane Doe'' \<and>
       dob (extracted t) = JStr ''Unknown'' \<and> flags (fraud_flags t) = JArr []))"
  (is "(\<exists>t. ?P t) \<and> ?S")
proof -
  obtain t where t: "transformedResult (JObj kvs) = Inr t"
    using transformedResult_obj by blast
  note pass = passthrough_fields [OF t]
    and top = top_level_defaults [OF t]
    and nested = nested_defaults [OF t]
  have absent: "get_prop (JObj kvs) ''fraud_flags'' = Undefined \<longrightarrow>
       fraud_flags t = \<lparr>has_fraud_indicators = JBool False, risk_level = JStr ''unknown'',
         flags = JArr [], ff_summary = JStr '''',
         details = \<lparr>age_validation = JObj [], expiry_validation = JObj [],
           name_validation = JObj [], id_validation = JObj [],
           consistency_issues = JArr []\<rparr>\<rparr>"
    by (rule impI) (rule fraud_flags_absent [OF t])
  have scenario: "idCard (files s) = Some i \<and> selfie (files s) = Some f \<and> ok code \<longrightarrow>
     (\<exists>t. verification
         (last (handleVerifyKYC (Response code statusText (Json scenario_body)) s)) =
         \<lparr>step = 4, isLoading = False, result = Some t, error = None\<rparr> \<and>
       trust_score t = JNum (Finite 92) \<and> name (extracted t) = JStr ''Jane Doe'' \<and>
       dob (extracted t) = JStr ''Unknown'' \<and> flags (fraud_flags t) = JArr [])"
  proof (intro impI, elim conjE)
    assume "idCard (files s) = Some i" and "selfie (files s) = Some f" and "ok code"
    then show "\<exists>t. verification
         (last (handleVerifyKYC (Response code statusText (Json scenario_body)) s)) =
         \<lparr>step = 4, isLoading = False, result = Some t, error = None\<rparr> \<and>
       trust_score t = JNum (Finite 92) \<and> name (extracted t) = JStr ''Jane Doe'' \<and>
       dob (extracted t) = JStr ''Unknown'' \<and> flags (fraud_flags t) = JArr []"
      by (rule handleVerifyKYC_scenario)
  qed
  have P: "?P t"
    by (rule conjI [OF t conjI [OF pass conjI [OF top conjI [OF absent nested]]]])
  have ex: "\<exists>t. ?P t"
    by (rule exI [where x = t]) (rule P)
  show ?thesis by (rule conjI [OF ex scenario])
qed

theorem C1_projection_fields_witness:
  "idCard (files scenario_state) =
     Some \<lparr>file_name = ''id.jpg'', file_size = 5 * 1024 * 1024, file_type = ''image/jpeg''\<rparr> \<and>
   selfie (files scenario_state) =
     Some \<lparr>file_name = ''selfie.png'', file_size = 2 * 1024 * 1024,
       file_type = ''image/png''\<rparr> \<and>
   ok 200 \<and>
   get_prop scenario_body ''dob'' = Undefined \<and>
   truthy (get_prop scenario_body ''name'') \<and>
   \<not> nullish (get_prop scenario_body ''trust_score'') \<and>
   get_prop scenario_body ''fraud_flags'' = Undefined \<and>
   (\<exists>t. transformedResult scenario_body = Inr t \<and>
     dob (extracted t) = JStr ''Unknown'' \<and> name (extracted t) = JStr ''Jane Doe'' \<and>
     trust_score t = JNum (Finite 92) \<and> flags (fraud_flags t) = JArr [] \<and>
     processing_time t = Undefined) \<and>
   (\<exists>t. verification
       (last (handleVerifyKYC (Response 200 ''OK'' (Json scenario_body)) scenario_state)) =
       \<lparr>step = 4, isLoading = False, result = Some t, error = None\<rparr> \<and>
     trust_score t = JNum (Finite 92) \<and> name (extracted t) = JStr ''Jane Doe'' \<and>
     dob (extracted t) = JStr ''Unknown'' \<and> flags (fraud_flags t) = JArr [])"
proof -
  have ok: "ok 200" by (simp add: ok_def)
  note inst = C1_projection_fields [of "[(''status'', JStr ''approved''),
      (''trust_score'', JNum (Finite 92)), (''name'', JStr ''Jane Doe'')]"
      scenario_state _ _ 200 "''OK''"]
  have raw: "get_prop scenario_body ''dob'' = Undefined"
    "truthy (get_prop scenario_body ''name'')"
    "\<not> nullish (get_prop scenario_body ''trust_score'')"
    "get_prop scenario_body ''fraud_flags'' = Undefined"
    by (simp_all add: scenario_body_def nullish_simps)
  have fields: "\<exists>t. transformedResult scenario_body = Inr t \<and>
     dob (extracted t) = JStr ''Unknown'' \<and> name (extracted t) = JStr ''Jane Doe'' \<and>
     trust_score t = JNum (Finite 92) \<and> flags (fraud_flags t) = JArr [] \<and>
     processing_time t = Undefined"
    using conjunct1 [OF inst] unfolding scenario_body_def
    by (auto simp: nullish_simps)
  have ex: "\<exists>t. verification
       (last (handleVerifyKYC (Response 200 ''OK'' (Json scenario_body)) scenario_state)) =
       \<lparr>step = 4, isLoading = False, result = Some t, error = None\<rparr> \<and>
     trust_score t = JNum (Finite 92) \<and> name (extracted t) = JStr ''Jane Doe'' \<and>
     dob (extracted t) = JStr ''Unknown'' \<and> flags (fraud_flags t) = JArr []"
    by (rule mp [OF conjunct2 [OF inst]
          conjI [OF scenario_state_files(1) conjI [OF scenario_state_files(2) ok]]])
  from scenario_state_files ok raw fields ex show ?thesis
    by (intro conjI)
qed

text \<open>
  Claim C1 as stated fails twice. \<open>processing_time\<close> is not read from the same-named
  raw field: for the body \<open>{processing_time: 5}\<close> the projection succeeds and its
  \<open>processing_time\<close> is \<open>undefined\<close>, while the raw field \<open>processing_time\<close> is 5.
  And a raw field that is present is not always kept: for the body \<open>{name: ""}\<close> the
  raw field \<open>name\<close> is present, the empty string, and \<open>extracted.name\<close> is "Unknown".
\<close>

theorem C1_same_named_and_present_counterexample:
  "\<not> isl (transformedResult (JObj [(''processing_time'', JNum (Finite 5))])) \<and>
   processing_time (projr (transformedResult (JObj [(''processing_time'', JNum (Finite 5))]))) =
     Undefined \<and>
   get_prop (JObj [(''processing_time'', JNum (Finite 5))]) ''processing_time'' =
     JNum (Finite 5) \<and>
   \<not> isl (transformedResult (JObj [(''name'', JStr '''')])) \<and>
   get_prop (JObj [(''name'', JStr '''')]) ''name'' = JStr '''' \<and>
   name (extracted (projr (transformedResult (JObj [(''name'', JStr '''')])))) =
     JStr ''Unknown''"
  by (simp add: transformedResult_def nullish_simps js_or_def)

text \<open>
  Claim C3. On every JSON object, the empty one included, the projection does not
  throw, and every output field that has a documented default is populated: neither
  \<open>null\<close> nor \<open>undefined\<close>.
\<close>

theorem C3_projection_total_and_populated:
  "\<exists>t. transformedResult (JObj kvs) = Inr t \<and>
     \<not> nullish (name (extracted t)) \<and> \<not> nullish (dob (extracted t)) \<and>
     \<not> nullish (id_number (extracted t)) \<and> \<not> nullish (document_type (extracted t)) \<and>
     \<not> nullish (trust_score t) \<and> \<not> nullish (face_confidence t) \<and>
     \<not> nullish (has_fraud_indicators (fraud_flags t)) \<and>
     \<not> nullish (risk_level (fraud_flags t)) \<and> \<not> nullish (flags (fraud_flags t)) \<and>
     \<not> nullish (ff_summary (fraud_flags t)) \<and>
     \<not> nullish (age_validation (details (fraud_flags t))) \<and>
     \<not> nullish (expiry_validation (details (fraud_flags t))) \<and>
     \<not> nullish (name_validation (details (fraud_flags t))) \<and>
     \<not> nullish (id_validation (details (fraud_flags t))) \<and>
     \<not> nullish (consistency_issues (details (fraud_flags t))) \<and>
     \<not> nullish (summary t) \<and> \<not> nullish (status t)"
  by (simp add: transformedResult_def js_or_not_nullish js_coalesce_not_nullish nullish_simps
      del: get_prop.simps)

text \<open>
  Claim C10. Each of the string-valued fields \<open>extracted.name\<close>, \<open>extracted.dob\<close>,
  \<open>extracted.id_number\<close>, \<open>extracted.document_type\<close>, \<open>fraud_flags.risk_level\<close>,
  \<open>fraud_flags.summary\<close>, \<open>summary\<close> and \<open>status\<close> is the raw value when that is
  truthy and the default otherwise, so a present empty string gives the default;
  \<open>trust_score\<close> and \<open>face_confidence\<close> are 0 only when the raw value is \<open>null\<close> or
  \<open>undefined\<close>, so a present 0 is kept.
\<close>

theorem C10_falsy_versus_nullish:
  "\<exists>t. transformedResult (JObj kvs) = Inr t \<and>
    name (extracted t) =
      (if truthy (get_prop (JObj kvs) ''name'') then get_prop (JObj kvs) ''name''
       else JStr ''Unknown'') \<and>
    dob (extracted t) =
      (if truthy (get_prop (JObj kvs) ''dob'') then get_prop (JObj kvs) ''dob''
       else JStr ''Unknown'') \<and>
    id_number (extracted t) =
      (if truthy (get_prop (JObj kvs) ''id_number'') then get_prop (JObj kvs) ''id_number''
       else JStr ''Unknown'') \<and>
    document_type (extracted t) =
      (if truthy (get_prop (JObj kvs) ''document_type'')
       then get_prop (JObj kvs) ''document_type'' else JStr ''unknown'') \<and>
    risk_level (fraud_flags t) =
      (if truthy (opt_chain (get_prop (JObj kvs) ''fraud_flags'') ''risk_level'')
       then opt_chain (get_prop (JObj kvs) ''fraud_flags'') ''risk_level''
       else JStr ''unknown'') \<and>
    ff_summary (fraud_flags t) =
      (if truthy (opt_chain (get_prop (JObj kvs) ''fraud_flags'') ''summary'')
       then opt_chain (get_prop (JObj kvs) ''fraud_flags'') ''summary'' else JStr '''') \<and>
    summary t =
      (if truthy (get_prop (JObj kvs) ''summary'') then get_prop (JObj kvs) ''summary''
       else JStr ''Verification completed.'') \<and>
    status t =
      (if truthy (get_prop (JObj kvs) ''status'') then get_prop (JObj kvs) ''status''
       else JStr ''completed'') \<and>
    (get_prop (JObj kvs) ''name'' = JStr '''' \<longrightarrow> name (extracted t) = JStr ''Unknown'') \<and>
    (get_prop (JObj kvs) ''dob'' = JStr '''' \<longrightarrow> dob (extracted t) = JStr ''Unknown'') \<and>
    (get_prop (JObj kvs) ''id_number'' = JStr '''' \<longrightarrow>
       id_number (extracted t) = JStr ''Unknown'') \<and>
    (get_prop (JObj kvs) ''document_type'' = JStr '''' \<longrightarrow>
       document_type (extracted t) = JStr ''unknown'') \<and>
    (opt_chain (get_prop (JObj kvs) ''fraud_flags'') ''risk_level'' = JStr '''' \<longrightarrow>
       risk_level (fraud_flags t) = JStr ''unknown'') \<and>
    (opt_chain (get_prop (JObj kvs) ''fraud_flags'') ''summary'' = JStr '''' \<longrightarrow>
       ff_summary (fraud_flags t) = JStr '''') \<and>
    (get_prop (JObj kvs) ''summary'' = JStr '''' \<longrightarrow>
       summary t = JStr ''Verification completed.'') \<and>
    (get_prop (JObj kvs) ''status'' = JStr '''' \<longrightarrow> status t = JStr ''completed'') \<and>
    trust_score t =
      (if get_prop (JObj kvs) ''trust_score'' = Undefined \<or>
          get_prop (JObj kvs) ''trust_score'' = JNull
       then JNum (Finite 0) else get_prop (JObj kvs) ''trust_score'') \<and>
    face_confidence t =
      (if get_prop (JObj kvs) ''face_confidence'' = Undefined \<or>
          get_prop (JObj kvs) ''face_confidence'' = JNull
       then JNum (Finite 0) else get_prop (JObj kvs) ''face_confidence'') \<and>
    (get_prop (JObj kvs) ''trust_score'' = JNum (Finite 0) \<longrightarrow>
       trust_score t = JNum (Finite 0)) \<and>
    (get_prop (JObj kvs) ''face_confidence'' = JNum (Finite 0) \<longrightarrow>
       face_confidence t = JNum (Finite 0))"
proof -
  obtain t where t: "transformedResult (JObj kvs) = Inr t"
    using transformedResult_obj by blast
  show ?thesis
    apply (rule exI [where x = t])
    using t top_level_fields [OF t] fraud_flags_fields [OF t]
    apply (simp add: js_or_def js_coalesce_def nullish_def del: get_prop.simps)
    done
qed

theorem C10_falsy_versus_nullish_witness:
  "get_prop (JObj [(''name'', JStr ''''), (''trust_score'', JNum (Finite 0))]) ''name'' =
     JStr '''' \<and>
   get_prop (JObj [(''name'', JStr ''''), (''trust_score'', JNum (Finite 0))]) ''trust_score'' =
     JNum (Finite 0) \<and>
   (\<exists>t. transformedResult (JObj [(''name'', JStr ''''), (''trust_score'', JNum (Finite 0))]) =
       Inr t \<and>
     name (extracted t) = JStr ''Unknown'' \<and> trust_score t = JNum (Finite 0))"
  using C10_falsy_versus_nullish [of "[(''name'', JStr ''''), (''trust_score'', JNum (Finite 0))]"]
  by auto

section \<open>The workflow controller\<close>

text \<open>
  Claim C2. With both files staged, a verify attempt that fails in transport (the
  \<open>fetch\<close> rejects) or with a non-2xx status ends in step 1, not loading, without a
  result, and with the error "Verification failed: " followed by the failure message:
  the thrown message, or "HTTP", the status code in decimal and the status text. That
  error contains the status code, "500" for a status 500. The staged files are as
  before the attempt. (By \<open>resume_failure\<close> the workflow state is the same when
  other handlers have run while the request was awaited.)
\<close>

theorem C2_failed_verify_returns_to_upload:
  assumes "idCard (files s) = Some i" and "selfie (files s) = Some f"
  shows
   "verification (last (handleVerifyKYC (Rejected e) s)) =
      \<lparr>step = 1, isLoading = False, result = None,
       error = Some (''Verification failed: '' @ message e)\<rparr> \<and>
    files (last (handleVerifyKYC (Rejected e) s)) = files s \<and>
    (\<not> ok code \<longrightarrow>
      verification (last (handleVerifyKYC (Response code statusText b) s)) =
        \<lparr>step = 1, isLoading = False, result = None,
         error = Some (''Verification failed: HTTP '' @ decimal code @ '': '' @ statusText)\<rparr> \<and>
      sublist (decimal code)
        (''Verification failed: HTTP '' @ decimal code @ '': '' @ statusText) \<and>
      files (last (handleVerifyKYC (Response code statusText b) s)) = files s) \<and>
    verification (last (handleVerifyKYC (Response 500 statusText b) s)) =
      \<lparr>step = 1, isLoading = False, result = None,
       error = Some (''Verification failed: HTTP 500: '' @ statusText)\<rparr> \<and>
    sublist ''500'' (''Verification failed: HTTP 500: '' @ statusText) \<and>
    files (last (handleVerifyKYC (Response 500 statusText b) s)) = files s"
proof -
  have rej: "verification (last (handleVerifyKYC (Rejected e) s)) =
      \<lparr>step = 1, isLoading = False, result = None,
       error = Some (''Verification failed: '' @ message e)\<rparr> \<and>
    files (last (handleVerifyKYC (Rejected e) s)) = files s"
    using assms
    by (simp add: last_handleVerifyKYC resume_failure [OF verify_try_Rejected] fetch_def)
  have http: "verification (last (handleVerifyKYC (Response c statusText b) s)) =
        \<lparr>step = 1, isLoading = False, result = None,
         error = Some (''Verification failed: HTTP '' @ decimal c @ '': '' @ statusText)\<rparr> \<and>
      files (last (handleVerifyKYC (Response c statusText b) s)) = files s"
    if "\<not> ok c" for c
    using assms that
    by (simp add: last_handleVerifyKYC resume_failure [OF verify_try_not_ok] fetch_def)
  have sub: "sublist (decimal c)
      (''Verification failed: HTTP '' @ decimal c @ '': '' @ statusText)" for c
    by (rule sublist_appendI)
  have n500: "\<not> ok 500" by (simp add: ok_def)
  show ?thesis
    using rej http [of code] http [OF n500] sub [of code] sub [of 500]
    by (simp add: decimal_500)
qed

theorem C2_failed_verify_returns_to_upload_witness:
  "\<not> ok 500 \<and>
   verification (last (handleVerifyKYC
      (Response 500 ''Internal Server Error'' (Json JNull)) scenario_state)) =
     \<lparr>step = 1, isLoading = False, result = None,
      error = Some ''Verification failed: HTTP 500: Internal Server Error''\<rparr> \<and>
   sublist ''500'' ''Verification failed: HTTP 500: Internal Server Error'' \<and>
   files (last (handleVerifyKYC
      (Response 500 ''Internal Server Error'' (Json JNull)) scenario_state)) = scenario_files"
proof -
  have n500: "\<not> ok 500" by (simp add: ok_def)
  have fs: "files scenario_state = scenario_files"
    by (simp add: scenario_state_def handleFilesSelect_def initial_def)
  from C2_failed_verify_returns_to_upload [OF scenario_state_files,
      of _ 500 "''Internal Server Error''" "Json JNull"] n500 fs
  show ?thesis by (simp add: decimal_500)
qed

text \<open>
  Claim C5. When either file slot is empty, a call of \<open>handleVerifyKYC\<close> only raises
  the warning: the single state it goes through is the prior one with the \<open>alert\<close>
  recorded, so the workflow state (step, loading flag, result, error), the files and the
  health status are unchanged and no request is dispatched.
\<close>

theorem C5_verify_guard_changes_nothing:
  assumes "idCard (files s) = None \<or> selfie (files s) = None"
  shows "handleVerifyKYC r s =
      [s\<lparr>alerts := alerts s @
        [''Please upload both ID document and selfie before verification.'']\<rparr>] \<and>
    verification (last (handleVerifyKYC r s)) = verification s \<and>
    fetches (last (handleVerifyKYC r s)) = fetches s \<and>
    files (last (handleVerifyKYC r s)) = files s \<and>
    apiHealth (last (handleVerifyKYC r s)) = apiHealth s"
  using assms by (auto simp: handleVerifyKYC_def alert_def split: option.splits)

theorem C5_verify_guard_changes_nothing_witness:
  "idCard (files initial) = None \<and>
   verification (last (handleVerifyKYC (Rejected (Error ''Failed to fetch'')) initial)) =
     \<lparr>step = 1, isLoading = False, result = None, error = None\<rparr> \<and>
   fetches (last (handleVerifyKYC (Rejected (Error ''Failed to fetch'')) initial)) = [] \<and>
   alerts (last (handleVerifyKYC (Rejected (Error ''Failed to fetch'')) initial)) =
     [''Please upload both ID document and selfie before verification.'']"
proof -
  have e: "idCard (files initial) = None" by (simp add: initial_def)
  then have "idCard (files initial) = None \<or> selfie (files initial) = None" ..
  from C5_verify_guard_changes_nothing [OF this, of "Rejected (Error ''Failed to fetch'')"] e
  show ?thesis by (simp add: initial_def)
qed

lemma submit_disabled_iff:
  "submit_disabled s =
     (idCard (files s) = None \<or> selfie (files s) = None \<or> isLoading (verification s))"
  by (simp add: submit_disabled_def canProceed_def split: option.splits)

lemma submit_rendered_iff:
  "submit_rendered s =
     (result (verification s) = None \<and> (idCard (files s) \<noteq> None \<or> selfie (files s) \<noteq> None))"
  by (simp add: submit_rendered_def split: option.splits)

lemma files_last_handleVerifyKYC: "files (last (handleVerifyKYC r s)) = files s"
  by (auto simp: handleVerifyKYC_def Let_def alert_def fetch_def handleVerifyKYC_resume_def
      split: option.splits sum.splits)

lemma reachable_scenario_state: "reachable scenario_state"
  unfolding scenario_state_def by (rule r_select [OF r_initial])

lemma reachable_after_success: "reachable after_success"
proof -
  have "handleVerifyKYC (Response 200 ''OK'' (Json scenario_body)) scenario_state \<noteq> []"
    by (simp add: handleVerifyKYC_def Let_def split: option.splits)
  then have "after_success \<in>
      set (handleVerifyKYC (Response 200 ''OK'' (Json scenario_body)) scenario_state)"
    unfolding after_success_def by (rule last_in_set)
  with reachable_scenario_state show ?thesis by (rule r_verify)
qed

lemma after_success_state:
  "files after_success = scenario_files"
  "isLoading (verification after_success) = False"
  "result (verification after_success) \<noteq> None"
proof -
  show "files after_success = scenario_files"
    by (simp add: after_success_def files_last_handleVerifyKYC scenario_state_def
        handleFilesSelect_def initial_def)
  have "ok 200" by (simp add: ok_def)
  from handleVerifyKYC_scenario [OF scenario_state_files this, of "''OK''"]
  obtain t where "verification after_success =
      \<lparr>step = 4, isLoading = False, result = Some t, error = None\<rparr>"
    unfolding after_success_def by blast
  then show "isLoading (verification after_success) = False"
    and "result (verification after_success) \<noteq> None"
    by simp_all
qed

text \<open>
  Claim C6, as amended. In every state of the application, so in every reachable one,
  the submit action can be taken (its button is rendered and not disabled) exactly when
  both file slots are occupied, nothing is loading and no result is displayed. Whenever
  a slot is empty or a verification is loading it cannot be taken; and wherever the
  button is rendered, it is disabled exactly when a slot is empty or a verification is
  loading.
\<close>

theorem C6_submit_enabled_iff_ready_and_no_result:
  "submit_enabled s =
     (idCard (files s) \<noteq> None \<and> selfie (files s) \<noteq> None \<and>
      \<not> isLoading (verification s) \<and> result (verification s) = None) \<and>
   (idCard (files s) = None \<or> selfie (files s) = None \<or> isLoading (verification s) \<longrightarrow>
      \<not> submit_enabled s) \<and>
   (submit_rendered s \<longrightarrow>
      submit_disabled s =
        (idCard (files s) = None \<or> selfie (files s) = None \<or> isLoading (verification s)))"
proof -
  have e: "submit_enabled s =
     (idCard (files s) \<noteq> None \<and> selfie (files s) \<noteq> None \<and>
      \<not> isLoading (verification s) \<and> result (verification s) = None)"
    unfolding submit_enabled_def submit_disabled_iff submit_rendered_iff by auto
  then have "idCard (files s) = None \<or> selfie (files s) = None \<or> isLoading (verification s) \<longrightarrow>
      \<not> submit_enabled s"
    by blast
  with e submit_disabled_iff [of s] show ?thesis by blast
qed

theorem C6_submit_enabled_iff_ready_and_no_result_witness:
  "reachable scenario_state \<and> submit_rendered scenario_state \<and>
   submit_enabled scenario_state \<and>
   reachable initial \<and> idCard (files initial) = None \<and> \<not> submit_enabled initial"
proof -
  have s: "idCard (files scenario_state) \<noteq> None" "selfie (files scenario_state) \<noteq> None"
    "\<not> isLoading (verification scenario_state)" "result (verification scenario_state) = None"
    by (simp_all add: scenario_state_def scenario_files_def handleFilesSelect_def initial_def)
  have i: "idCard (files initial) = None" by (simp add: initial_def)
  from s have r: "submit_rendered scenario_state" by (simp add: submit_rendered_iff)
  from C6_submit_enabled_iff_ready_and_no_result [of scenario_state]
    C6_submit_enabled_iff_ready_and_no_result [of initial]
    s i r reachable_scenario_state r_initial
  show ?thesis by blast
qed

text \<open>
  Claim C6 as stated fails in a reachable state. After the scenario's verification has
  succeeded both slots are occupied and nothing is loading, so the button's
  \<open>disabled\<close> attribute would be off; but a result is displayed, the button is not
  rendered, and the submit action cannot be taken.
\<close>

theorem C6_after_success_counterexample:
  "reachable after_success \<and>
   idCard (files after_success) \<noteq> None \<and> selfie (files after_success) \<noteq> None \<and>
   \<not> isLoading (verification after_success) \<and>
   \<not> submit_disabled after_success \<and>
   \<not> submit_rendered after_success \<and> \<not> submit_enabled after_success"
  using reachable_after_success after_success_state
  by (simp add: submit_enabled_def submit_rendered_iff submit_disabled_iff scenario_files_def)

subsection \<open>The shape of the workflow state\<close>

lemma workflow_ok_resume: "workflow_ok (verification (handleVerifyKYC_resume r s))"
  by (auto simp: handleVerifyKYC_resume_def workflow_ok_def split: sum.splits)

lemma workflow_ok_select:
  "workflow_ok (verification s) \<Longrightarrow> workflow_ok (verification (handleFilesSelect nf s))"
  by (auto simp: handleFilesSelect_def workflow_ok_def Let_def)

lemma workflow_ok_startOver: "workflow_ok (verification (handleStartOver s))"
  by (auto simp: handleStartOver_def workflow_ok_def)

lemma verification_checkApiHealth: "verification (checkApiHealth now r s) = verification s"
  by (auto simp: checkApiHealth_def fetch_def Let_def split: fetch_result.splits body.splits)

lemma files_checkApiHealth: "files (checkApiHealth now r s) = files s"
  by (auto simp: checkApiHealth_def fetch_def Let_def split: fetch_result.splits body.splits)

lemma set_handleVerifyKYC:
  "s' \<in> set (handleVerifyKYC r s) \<Longrightarrow>
   verification s' = verification s \<or>
   verification s' = \<lparr>step = 2, isLoading = True, result = None, error = None\<rparr> \<or>
   verification s' = \<lparr>step = 3, isLoading = True, result = None, error = None\<rparr> \<or>
   (\<exists>s2. s' = handleVerifyKYC_resume r s2)"
  by (auto simp: handleVerifyKYC_def Let_def alert_def fetch_def split: option.splits)

lemma workflow_ok_verify:
  assumes "workflow_ok (verification s)" and "s' \<in> set (handleVerifyKYC r s)"
  shows "workflow_ok (verification s')"
  using set_handleVerifyKYC [OF assms(2)] assms(1)
  by (auto simp: workflow_ok_resume) (simp_all add: workflow_ok_def)

lemma reachable_workflow_ok: "reachable s \<Longrightarrow> workflow_ok (verification s)"
proof (induction rule: reachable.induct)
  case r_initial
  show ?case by (simp add: initial_def workflow_ok_def)
next
  case (r_select s newFiles)
  then show ?case by (simp add: workflow_ok_select)
next
  case (r_verify s s' r)
  then show ?case by (simp add: workflow_ok_verify)
next
  case (r_resume s r)
  show ?case by (rule workflow_ok_resume)
next
  case (r_startOver s)
  show ?case by (rule workflow_ok_startOver)
next
  case (r_health s now r)
  then show ?case by (simp add: verification_checkApiHealth)
qed

text \<open>
  Claim C9. In every reachable state of the application, the states between the updates
  of one handler included, \<open>isLoading\<close> is true exactly when \<open>step\<close> is 2 or 3, the
  pair (step, isLoading) is one of (1, false), (2, true), (3, true), (4, false), and at
  least one of \<open>result\<close> and \<open>error\<close> is absent.
\<close>

theorem C9_loading_iff_step_2_or_3:
  assumes "reachable s"
  shows "(isLoading (verification s) = (step (verification s) = 2 \<or> step (verification s) = 3)) \<and>
     (step (verification s), isLoading (verification s)) \<in>
        {(1, False), (2, True), (3, True), (4, False)} \<and>
     (result (verification s) = None \<or> error (verification s) = None)"
  using reachable_workflow_ok [OF assms] unfolding workflow_ok_def .

theorem C9_loading_iff_step_2_or_3_witness:
  "reachable (handleVerifyKYC (Rejected (Error ''Failed to fetch'')) scenario_state ! 1) \<and>
   step (verification
     (handleVerifyKYC (Rejected (Error ''Failed to fetch'')) scenario_state ! 1)) = 3 \<and>
   isLoading (verification
     (handleVerifyKYC (Rejected (Error ''Failed to fetch'')) scenario_state ! 1)) \<and>
   result (verification
     (handleVerifyKYC (Rejected (Error ''Failed to fetch'')) scenario_state ! 1)) = None"
proof -
  have len: "length (handleVerifyKYC (Rejected (Error ''Failed to fetch'')) scenario_state) = 3"
    using scenario_state_files by (simp add: handleVerifyKYC_def Let_def)
  have "reachable scenario_state"
    unfolding scenario_state_def by (rule r_select [OF r_initial])
  moreover have "handleVerifyKYC (Rejected (Error ''Failed to fetch'')) scenario_state ! 1
      \<in> set (handleVerifyKYC (Rejected (Error ''Failed to fetch'')) scenario_state)"
    by (rule nth_mem) (simp add: len)
  ultimately have r: "reachable
      (handleVerifyKYC (Rejected (Error ''Failed to fetch'')) scenario_state ! 1)"
    by (rule r_verify)
  have st: "step (verification
     (handleVerifyKYC (Rejected (Error ''Failed to fetch'')) scenario_state ! 1)) = 3"
    using scenario_state_files by (simp add: handleVerifyKYC_def Let_def fetch_def)
  have res: "result (verification
     (handleVerifyKYC (Rejected (Error ''Failed to fetch'')) scenario_state ! 1)) = None"
    using scenario_state_files by (simp add: handleVerifyKYC_def Let_def fetch_def)
  from C9_loading_iff_step_2_or_3 [OF r] r st res show ?thesis by simp
qed

section \<open>The health probe\<close>

text \<open>
  Claim C8, as amended. \<open>checkApiHealth\<close> sets the health status to healthy, keeping
  the parsed payload, exactly when the response has a successful status and its body
  parses as JSON; otherwise it sets it to error, with "HTTP" and the status code for a
  non-2xx status, and with the thrown message when the request fails in transport or
  when the body of a successful response does not parse. In every case the workflow
  state (step, loading flag, result, error) and the staged files are as before.
\<close>

theorem C8_health_probe:
  "(ok code \<longrightarrow>
      apiHealth (checkApiHealth now (Response code statusText (Json healthData)) s) =
        \<lparr>health_status = ''healthy'', lastChecked = Some now, health_data = Some healthData,
         health_error = None\<rparr> \<and>
      apiHealth (checkApiHealth now (Response code statusText (NotJson e)) s) =
        \<lparr>health_status = ''error'', lastChecked = Some now, health_data = None,
         health_error = Some (message e)\<rparr>) \<and>
   (\<not> ok code \<longrightarrow>
      apiHealth (checkApiHealth now (Response code statusText b) s) =
        \<lparr>health_status = ''error'', lastChecked = Some now, health_data = None,
         health_error = Some (''HTTP '' @ decimal code)\<rparr>) \<and>
   apiHealth (checkApiHealth now (Rejected e) s) =
     \<lparr>health_status = ''error'', lastChecked = Some now, health_data = None,
      health_error = Some (message e)\<rparr> \<and>
   (health_status (apiHealth (checkApiHealth now r s)) = ''healthy'') =
     (\<exists>c t d. r = Response c t (Json d) \<and> ok c) \<and>
   (health_status (apiHealth (checkApiHealth now r s)) = ''error'') =
     (\<not> (\<exists>c t d. r = Response c t (Json d) \<and> ok c)) \<and>
   verification (checkApiHealth now r s) = verification s \<and>
   files (checkApiHealth now r s) = files s"
proof -
  have "(health_status (apiHealth (checkApiHealth now r s)) = ''healthy'') =
     (\<exists>c t d. r = Response c t (Json d) \<and> ok c)"
    by (auto simp: checkApiHealth_def fetch_def Let_def split: fetch_result.splits body.splits)
  moreover have "(health_status (apiHealth (checkApiHealth now r s)) = ''error'') =
     (\<not> (\<exists>c t d. r = Response c t (Json d) \<and> ok c))"
    by (auto simp: checkApiHealth_def fetch_def Let_def split: fetch_result.splits body.splits)
  ultimately show ?thesis
    by (simp add: verification_checkApiHealth files_checkApiHealth)
      (simp add: checkApiHealth_def fetch_def)
qed

theorem C8_health_probe_witness:
  "ok 200 \<and>
   apiHealth (checkApiHealth ''12:00:00''
       (Response 200 ''OK'' (Json (JObj [(''status'', JStr ''healthy'')]))) initial) =
     \<lparr>health_status = ''healthy'', lastChecked = Some ''12:00:00'',
      health_data = Some (JObj [(''status'', JStr ''healthy'')]), health_error = None\<rparr> \<and>
   \<not> ok 503 \<and>
   apiHealth (checkApiHealth ''12:00:00''
       (Response 503 ''Service Unavailable'' (NotJson (Error ''Unexpected end of JSON input'')))
       initial) =
     \<lparr>health_status = ''error'', lastChecked = Some ''12:00:00'', health_data = None,
      health_error = Some ''HTTP 503''\<rparr>"
proof -
  have k: "ok 200" "\<not> ok 503" by (simp_all add: ok_def)
  have d: "decimal 503 = ''503''" by (simp add: decimal.simps digit_def)
  from C8_health_probe [of 200 "''12:00:00''" "''OK''" "JObj [(''status'', JStr ''healthy'')]"
      initial]
    C8_health_probe [of 503 "''12:00:00''" "''Service Unavailable''" _ initial _
      "NotJson (Error ''Unexpected end of JSON input'')"] k d
  show ?thesis by simp
qed

text \<open>
  Claim C8 as stated fails: a successful status does not always give healthy. A 204
  response has an empty body, \<open>response.json()\<close> rejects, and the \<open>catch\<close> block sets
  the status to error.
\<close>

theorem C8_successful_status_counterexample:
  "ok 204 \<and>
   health_status (apiHealth (checkApiHealth ''12:00:00''
      (Response 204 ''No Content'' (NotJson (Error ''Unexpected end of JSON input'')))
      initial)) = ''error''"
  by (simp add: ok_def checkApiHealth_def fetch_def)


section \<open>File staging\<close>

lemma validateFile_rejects:
  assumes "10 * 1024 * 1024 < file_size f \<or> file_type f \<notin> set allowedTypes"
  shows "validateFile f =
    Some (if 10 * 1024 * 1024 < file_size f then ''File size must be less than 10MB''
          else ''Please upload a valid image file (JPEG, PNG, WebP)'')"
  using assms by (auto simp: validateFile_def)

text \<open>
  Claim C4. A candidate file larger than 10 MiB, or whose declared media type is not
  one of the allowed types, is rejected by \<open>handleFileSelect\<close>, whatever the slot: the
  only effect is the \<open>alert\<close> with the validation error, which is the size message
  when the size is exceeded and the type message otherwise. Both staged files are as
  before, no object URL is created or revoked, and the callback is not called.
\<close>

theorem C4_select_rejects_invalid_file:
  assumes "10 * 1024 * 1024 < file_size f \<or> file_type f \<notin> set allowedTypes"
  shows "handleFileSelect f type u =
      u\<lparr>alerted := alerted u @
        [if 10 * 1024 * 1024 < file_size f then ''File size must be less than 10MB''
         else ''Please upload a valid image file (JPEG, PNG, WebP)'']\<rparr> \<and>
     idCardFile (handleFileSelect f type u) = idCardFile u \<and>
     selfieFile (handleFileSelect f type u) = selfieFile u \<and>
     urls (handleFileSelect f type u) = urls u \<and>
     fresh (handleFileSelect f type u) = fresh u \<and>
     revoked (handleFileSelect f type u) = revoked u \<and>
     notified (handleFileSelect f type u) = notified u"
proof -
  have h: "handleFileSelect f type u = u\<lparr>alerted := alerted u @
        [if 10 * 1024 * 1024 < file_size f then ''File size must be less than 10MB''
         else ''Please upload a valid image file (JPEG, PNG, WebP)'']\<rparr>"
    unfolding handleFileSelect_def validateFile_rejects [OF assms] by simp
  show ?thesis unfolding h by simp
qed

theorem C4_select_rejects_invalid_file_witness:
  "10 * 1024 * 1024 <
     file_size \<lparr>file_name = ''scan.jpg'', file_size = 10 * 1024 * 1024 + 1,
       file_type = ''image/jpeg''\<rparr> \<and>
   handleFileSelect \<lparr>file_name = ''scan.jpg'', file_size = 10 * 1024 * 1024 + 1,
       file_type = ''image/jpeg''\<rparr> ''id'' mount =
     mount\<lparr>alerted := [''File size must be less than 10MB'']\<rparr> \<and>
   file_type \<lparr>file_name = ''scan.gif'', file_size = 1024, file_type = ''image/gif''\<rparr>
     \<notin> set allowedTypes \<and>
   handleFileSelect \<lparr>file_name = ''scan.gif'', file_size = 1024, file_type = ''image/gif''\<rparr>
       ''selfie'' mount =
     mount\<lparr>alerted := [''Please upload a valid image file (JPEG, PNG, WebP)'']\<rparr>"
proof -
  have big: "10 * 1024 * 1024 <
     file_size \<lparr>file_name = ''scan.jpg'', file_size = 10 * 1024 * 1024 + 1,
       file_type = ''image/jpeg''\<rparr>"
    by simp
  have gif: "file_type \<lparr>file_name = ''scan.gif'', file_size = 1024,
      file_type = ''image/gif''\<rparr> \<notin> set allowedTypes"
    by (simp add: allowedTypes_def)
  from C4_select_rejects_invalid_file [OF disjI1 [OF big], of "''id''" mount]
    C4_select_rejects_invalid_file [OF disjI2 [OF gif], of "''selfie''" mount] big gif
  show ?thesis by (simp add: mount_def)
qed

subsection \<open>Select and remove keep the preview URLs in order\<close>

lemma created_split:
  fixes n :: nat
  assumes "P \<union> R = {..<n}"
  shows "n \<notin> P" "n \<notin> R" "insert n (P \<union> R) = {..<Suc n}"
proof -
  from assms have lt: "\<And>x. x \<in> P \<or> x \<in> R \<longleftrightarrow> x < n" by auto
  from lt [of n] show "n \<notin> P" "n \<notin> R" by simp_all
  show "insert n (P \<union> R) = {..<Suc n}"
    unfolding assms by (rule lessThan_Suc [symmetric])
qed

lemma ok_after_add:
  assumes ok: "staged_ok u"
    and u': "urls u' = urls u @ [fresh u]" "revoked u' = revoked u" "fresh u' = Suc (fresh u)"
      "staged u' = insert (fresh u) (staged u)" "slots_differ u'"
  shows "staged_ok u'"
proof -
  from ok have o: "set (urls u) = staged u" "distinct (urls u)" "distinct (revoked u)"
    "staged u \<inter> set (revoked u) = {}" "staged u \<union> set (revoked u) = {..<fresh u}"
    by (simp_all add: staged_ok_def)
  note n = created_split [OF o(5)]
  have 1: "set (urls u') = staged u'" by (simp add: u' o(1))
  have 2: "distinct (urls u')" using n(1) by (simp add: u' o(1,2))
  have 3: "distinct (revoked u')" by (simp add: u' o(3))
  have 4: "staged u' \<inter> set (revoked u') = {}" using n(2) o(4) by (simp add: u')
  have 5: "staged u' \<union> set (revoked u') = {..<fresh u'}" using n(3) by (simp add: u')
  from 1 2 3 4 5 u'(5) show ?thesis by (simp add: staged_ok_def)
qed

lemma ok_after_remove:
  assumes ok: "staged_ok u"
    and A: "staged u = insert p A" "p \<notin> A"
    and u': "urls u' = removeAll p (urls u)" "revoked u' = revoked u @ [p]" "fresh u' = fresh u"
      "staged u' = A" "slots_differ u'"
  shows "staged_ok u'"
proof -
  from ok have o: "set (urls u) = staged u" "distinct (urls u)" "distinct (revoked u)"
    "staged u \<inter> set (revoked u) = {}" "staged u \<union> set (revoked u) = {..<fresh u}"
    by (simp_all add: staged_ok_def)
  from o(4) A(1) have pR: "p \<notin> set (revoked u)" and AR: "A \<inter> set (revoked u) = {}" by auto
  have 1: "set (urls u') = staged u'" using A by (simp add: u' o(1))
  have 2: "distinct (urls u')" by (simp add: u' o(2) distinct_removeAll)
  have 3: "distinct (revoked u')" using pR by (simp add: u' o(3))
  have 4: "staged u' \<inter> set (revoked u') = {}" using AR A(2) by (simp add: u')
  have "A \<union> insert p (set (revoked u)) = staged u \<union> set (revoked u)" using A(1) by auto
  then have 5: "staged u' \<union> set (revoked u') = {..<fresh u'}" by (simp add: u' o(5))
  from 1 2 3 4 5 u'(5) show ?thesis by (simp add: staged_ok_def)
qed

lemma staged_ok_fresh: "staged_ok u \<Longrightarrow> fresh u \<notin> staged u"
  by (rule created_split(1) [of "staged u" "set (revoked u)"]) (simp add: staged_ok_def)

lemma staged_ok_notified: "staged_ok (onFilesSelect fs u) = staged_ok u"
  by (simp add: staged_ok_def staged_def slots_differ_def onFilesSelect_def)

lemma staged_ok_alerted: "staged_ok (u\<lparr>alerted := a\<rparr>) = staged_ok u"
  by (simp add: staged_ok_def staged_def slots_differ_def)

lemma release_id_ok:
  assumes ok: "staged_ok u"
  shows "staged_ok (release_id u)"
proof (cases "idCardFile u")
  case None
  then have "release_id u = u" by (simp add: release_id_def)
  with ok show ?thesis by simp
next
  case (Some old)
  from ok have d: "slots_differ u" by (simp add: staged_ok_def)
  show ?thesis
  proof (rule ok_after_remove [OF ok, where p = "preview old"
        and A = "preview ` set_option (selfieFile u)"])
    show "staged u = insert (preview old) (preview ` set_option (selfieFile u))"
      using Some by (simp add: staged_def)
    show "preview old \<notin> preview ` set_option (selfieFile u)"
      using d Some by (cases "selfieFile u") (simp_all add: slots_differ_def)
  qed (simp_all add: Some release_id_def revokeObjectURL_def staged_def slots_differ_def)
qed

lemma release_selfie_ok:
  assumes ok: "staged_ok u"
  shows "staged_ok (release_selfie u)"
proof (cases "selfieFile u")
  case None
  then have "release_selfie u = u" by (simp add: release_selfie_def)
  with ok show ?thesis by simp
next
  case (Some old)
  from ok have d: "slots_differ u" by (simp add: staged_ok_def)
  show ?thesis
  proof (rule ok_after_remove [OF ok, where p = "preview old"
        and A = "preview ` set_option (idCardFile u)"])
    show "staged u = insert (preview old) (preview ` set_option (idCardFile u))"
      using Some by (auto simp: staged_def)
    show "preview old \<notin> preview ` set_option (idCardFile u)"
      using d Some by (cases "idCardFile u") (auto simp: slots_differ_def)
  qed (simp_all add: Some release_selfie_def revokeObjectURL_def staged_def slots_differ_def
      split: option.splits)
qed

lemma stage_id_ok:
  assumes ok: "staged_ok u" and empty: "idCardFile u = None"
  shows "staged_ok ((snd (createObjectURL u))
           \<lparr>idCardFile := Some \<lparr>ufile = f, preview = fresh u\<rparr>\<rparr>)"
proof (rule ok_after_add [OF ok])
  from staged_ok_fresh [OF ok] empty
  show "slots_differ ((snd (createObjectURL u))
           \<lparr>idCardFile := Some \<lparr>ufile = f, preview = fresh u\<rparr>\<rparr>)"
    by (cases "selfieFile u") (auto simp: slots_differ_def createObjectURL_def staged_def)
qed (simp_all add: empty createObjectURL_def staged_def)

lemma stage_selfie_ok:
  assumes ok: "staged_ok u" and empty: "selfieFile u = None"
  shows "staged_ok ((snd (createObjectURL u))
           \<lparr>selfieFile := Some \<lparr>ufile = f, preview = fresh u\<rparr>\<rparr>)"
proof (rule ok_after_add [OF ok])
  from staged_ok_fresh [OF ok] empty
  show "slots_differ ((snd (createObjectURL u))
           \<lparr>selfieFile := Some \<lparr>ufile = f, preview = fresh u\<rparr>\<rparr>)"
    by (cases "idCardFile u") (auto simp: slots_differ_def createObjectURL_def staged_def)
qed (auto simp: empty createObjectURL_def staged_def)

lemma handleFileSelect_id:
  "validateFile f = None \<Longrightarrow>
   handleFileSelect f ''id'' u =
     onFilesSelect \<lparr>idCard = Some f, selfie = map_option ufile (selfieFile u)\<rparr>
       ((snd (createObjectURL (release_id u)))
          \<lparr>idCardFile := Some \<lparr>ufile = f, preview = fresh (release_id u)\<rparr>\<rparr>)"
  by (cases "idCardFile u")
    (simp_all add: handleFileSelect_def release_id_def createObjectURL_def revokeObjectURL_def
      onFilesSelect_def)

lemma handleFileSelect_selfie:
  "validateFile f = None \<Longrightarrow> type \<noteq> ''id'' \<Longrightarrow>
   handleFileSelect f type u =
     onFilesSelect \<lparr>idCard = map_option ufile (idCardFile u), selfie = Some f\<rparr>
       ((snd (createObjectURL (release_selfie u)))
          \<lparr>selfieFile := Some \<lparr>ufile = f, preview = fresh (release_selfie u)\<rparr>\<rparr>)"
  by (cases "selfieFile u")
    (simp_all add: handleFileSelect_def release_selfie_def createObjectURL_def
      revokeObjectURL_def onFilesSelect_def)

lemma handleFileRemove_id:
  "handleFileRemove ''id'' u =
     onFilesSelect \<lparr>idCard = None, selfie = map_option ufile (selfieFile u)\<rparr> (release_id u)"
  by (simp add: handleFileRemove_def release_id_def Let_def)

lemma handleFileRemove_selfie:
  "type \<noteq> ''id'' \<Longrightarrow>
   handleFileRemove type u =
     onFilesSelect \<lparr>idCard = map_option ufile (idCardFile u), selfie = None\<rparr>
       (release_selfie u)"
  by (simp add: handleFileRemove_def release_selfie_def Let_def)

lemma staged_ok_select:
  assumes ok: "staged_ok u"
  shows "staged_ok (handleFileSelect f type u)"
proof (cases "validateFile f")
  case (Some e)
  with ok show ?thesis by (simp add: handleFileSelect_def staged_ok_alerted)
next
  case None
  show ?thesis
  proof (cases "type = ''id''")
    case True
    have "idCardFile (release_id u) = None" by (simp add: release_id_def)
    from stage_id_ok [OF release_id_ok [OF ok] this] True None
    show ?thesis by (simp add: handleFileSelect_id staged_ok_notified)
  next
    case False
    have "selfieFile (release_selfie u) = None" by (simp add: release_selfie_def)
    from stage_selfie_ok [OF release_selfie_ok [OF ok] this] False None
    show ?thesis by (simp add: handleFileSelect_selfie staged_ok_notified)
  qed
qed

lemma staged_ok_remove:
  assumes ok: "staged_ok u"
  shows "staged_ok (handleFileRemove type u)"
proof (cases "type = ''id''")
  case True
  with release_id_ok [OF ok] show ?thesis
    by (simp add: handleFileRemove_id staged_ok_notified)
next
  case False
  with release_selfie_ok [OF ok] show ?thesis
    by (simp add: handleFileRemove_selfie staged_ok_notified)
qed

lemma staged_ok_mount: "staged_ok mount"
  by (simp add: staged_ok_def staged_def slots_differ_def mount_def)

lemma staged_ok_run: "staged_ok u \<Longrightarrow> staged_ok (run ops u)"
proof (induction ops arbitrary: u)
  case Nil
  then show ?case by simp
next
  case (Cons x xs)
  then show ?case by (cases x) (simp_all add: staged_ok_select staged_ok_remove)
qed

lemma card_staged: "card (staged u) \<le> 2"
proof -
  have "card (staged u) \<le> card (set_option (idCardFile u) \<union> set_option (selfieFile u))"
    unfolding staged_def by (rule card_image_le) simp
  also have "\<dots> \<le> card (set_option (idCardFile u)) + card (set_option (selfieFile u))"
    by (rule card_Un_le)
  also have "\<dots> \<le> 1 + 1"
    by (rule add_mono) (cases "idCardFile u", simp_all, cases "selfieFile u", simp_all)
  finally show ?thesis by simp
qed

text \<open>
  After any sequence of select and remove operations on a freshly mounted component:
  the live URLs are the previews the two slots hold, so at most one per slot and two in
  all; no URL has been revoked twice; and every URL created is live or revoked, so each
  replaced or removed preview has been revoked, once.
\<close>

lemma staging_invariant:
  "set (urls (run ops mount)) = staged (run ops mount) \<and>
   distinct (urls (run ops mount)) \<and> length (urls (run ops mount)) \<le> 2 \<and>
   distinct (revoked (run ops mount)) \<and>
   set (urls (run ops mount)) \<inter> set (revoked (run ops mount)) = {} \<and>
   set (urls (run ops mount)) \<union> set (revoked (run ops mount)) = {..<fresh (run ops mount)}"
proof -
  have ok: "staged_ok (run ops mount)"
    by (rule staged_ok_run [OF staged_ok_mount])
  then have e: "set (urls (run ops mount)) = staged (run ops mount)"
    and d: "distinct (urls (run ops mount))"
    by (simp_all add: staged_ok_def)
  from d have "length (urls (run ops mount)) = card (set (urls (run ops mount)))"
    by (simp add: distinct_card)
  with card_staged [of "run ops mount"] e have "length (urls (run ops mount)) \<le> 2" by simp
  with ok show ?thesis by (simp add: staged_ok_def)
qed

text \<open>
  Claim C7. For select and remove the claim holds of the code, as
  \<open>staging_invariant\<close> shows. It does not hold on teardown. In the drop-zone
  component, a file is dropped on the ID slot of a freshly mounted component and the
  component is then unmounted: the cleanup revokes nothing, and the preview URL created
  for the file, which the slot held, stays live. (The component inside the application
  registers no cleanup at all.)
\<close>

theorem C7_unmount_leaves_preview_live:
  "urls (unmount (onDropIdCard
      [\<lparr>file_name = ''id.jpg'', file_size = 5 * 1024 * 1024, file_type = ''image/jpeg''\<rparr>]
      mount)) = [0] \<and>
   revoked (unmount (onDropIdCard
      [\<lparr>file_name = ''id.jpg'', file_size = 5 * 1024 * 1024, file_type = ''image/jpeg''\<rparr>]
      mount)) = [] \<and>
   map_option preview (idCardFile (onDropIdCard
      [\<lparr>file_name = ''id.jpg'', file_size = 5 * 1024 * 1024, file_type = ''image/jpeg''\<rparr>]
      mount)) = Some 0"
  by (simp add: unmount_def cleanup_def mount_def onDropIdCard_def createObjectURL_def
      onFilesSelect_def)

text \<open>
  Run over the state at the time of the unmount instead, the same cleanup function
  revokes the preview: the leak comes from the state the effect closes over.
\<close>

lemma cleanup_over_current_state_releases:
  "urls (cleanup
      (idCardFile (onDropIdCard
        [\<lparr>file_name = ''id.jpg'', file_size = 5 * 1024 * 1024, file_type = ''image/jpeg''\<rparr>]
        mount))
      (selfieFile (onDropIdCard
        [\<lparr>file_name = ''id.jpg'', file_size = 5 * 1024 * 1024, file_type = ''image/jpeg''\<rparr>]
        mount))
      (onDropIdCard
        [\<lparr>file_name = ''id.jpg'', file_size = 5 * 1024 * 1024, file_type = ''image/jpeg''\<rparr>]
        mount)) = []"
  by (simp add: cleanup_def mount_def onDropIdCard_def createObjectURL_def onFilesSelect_def
      revokeObjectURL_def)

end
